theory Spec2Isabelle
  imports Complex_Main "HOL-Library.Sublist"
begin

section \<open>GLSL values and built-in functions\<close>

text \<open>
  The fragment shaders of \<^verbatim>\<open>main.js\<close> compute on GLSL floats. They are modelled on
  the reals: rounding, infinities and NaN are outside the model. A \<^verbatim>\<open>vec2\<close> is a pair,
  a \<^verbatim>\<open>vec4\<close> has the four channels r, g, b, a, and a \<^verbatim>\<open>sampler2D\<close> is the function
  that \<^verbatim>\<open>texture2D\<close> evaluates at a coordinate.
\<close>

type_synonym vec2 = "real \<times> real"

datatype vec4 = Vec4 (chR: real) (chG: real) (chB: real) (chA: real)

type_synonym sampler2D = "vec2 \<Rightarrow> vec4"

definition texture2D :: "sampler2D \<Rightarrow> vec2 \<Rightarrow> vec4" where
  "texture2D s uv = s uv"

definition add2 :: "vec2 \<Rightarrow> vec2 \<Rightarrow> vec2" where
  "add2 p q = (fst p + fst q, snd p + snd q)"

definition sub2 :: "vec2 \<Rightarrow> vec2 \<Rightarrow> vec2" where
  "sub2 p q = (fst p - fst q, snd p - snd q)"

definition scale2 :: "vec2 \<Rightarrow> real \<Rightarrow> vec2" where
  "scale2 p k = (fst p * k, snd p * k)"

definition scale4 :: "vec4 \<Rightarrow> real \<Rightarrow> vec4" where
  "scale4 c k = Vec4 (chR c * k) (chG c * k) (chB c * k) (chA c * k)"

text \<open>\<^verbatim>\<open>length(v)\<close> and \<^verbatim>\<open>distance(p0, p1) = length(p0 - p1)\<close>.\<close>

definition length2 :: "vec2 \<Rightarrow> real" where
  "length2 p = sqrt (fst p * fst p + snd p * snd p)"

definition length4 :: "vec4 \<Rightarrow> real" where
  "length4 c = sqrt (chR c * chR c + chG c * chG c + chB c * chB c + chA c * chA c)"

definition distance2 :: "vec2 \<Rightarrow> vec2 \<Rightarrow> real" where
  "distance2 p q = length2 (sub2 p q)"

text \<open>\<^verbatim>\<open>clamp(x, lo, hi) = min(max(x, lo), hi)\<close>.\<close>

definition clamp :: "real \<Rightarrow> real \<Rightarrow> real \<Rightarrow> real" where
  "clamp x lo hi = min (max x lo) hi"

text \<open>
  \<^verbatim>\<open>smoothstep(edge0, edge1, x)\<close> is the Hermite interpolation
  \<^verbatim>\<open>t = clamp((x - edge0) / (edge1 - edge0), 0.0, 1.0); return t * t * (3.0 - 2.0 * t);\<close>
  Both shaders call it with \<^verbatim>\<open>edge0 > edge1\<close>, a case the GLSL specification leaves
  open; the model evaluates the formula as it stands, as implementations do.
\<close>

definition smoothstep :: "real \<Rightarrow> real \<Rightarrow> real \<Rightarrow> real" where
  "smoothstep edge0 edge1 x =
     (let t = clamp ((x - edge0) / (edge1 - edge0)) 0 1 in t * t * (3 - 2 * t))"

text \<open>\<^verbatim>\<open>mix(x, y, a) = x * (1 - a) + y * a\<close>, on each channel.\<close>

definition mix :: "real \<Rightarrow> real \<Rightarrow> real \<Rightarrow> real" where
  "mix x y a = x * (1 - a) + y * a"

definition mix4 :: "vec4 \<Rightarrow> vec4 \<Rightarrow> real \<Rightarrow> vec4" where
  "mix4 x y a = Vec4 (mix (chR x) (chR y) a) (mix (chG x) (chG y) a)
                     (mix (chB x) (chB y) a) (mix (chA x) (chA y) a)"

section \<open>The two fragment shaders\<close>

text \<open>
  \<^verbatim>\<open>displacementUpdateMaterial.fragmentShader\<close>: one fragment at coordinate \<open>vUv\<close>.
  The statement \<^verbatim>\<open>lastDisp.rg += uMouseVelocity * strength * 2.5\<close> changes the first
  two channels only. The quotient \<^verbatim>\<open>uResolution.x / uResolution.y\<close> has a meaning only
  for a viewport of non-zero height, which is the case whenever a fragment is shaded.
\<close>

definition displacementUpdate_frag ::
  "sampler2D \<Rightarrow> vec2 \<Rightarrow> vec2 \<Rightarrow> vec2 \<Rightarrow> vec2 \<Rightarrow> vec4" where
  "displacementUpdate_frag uLastFrame uMousePos uMouseVelocity uResolution vUv =
     (let lastDisp = scale4 (texture2D uLastFrame vUv) 0.95;
          aspectRatio = fst uResolution / snd uResolution;
          correctedUv = (fst vUv * aspectRatio, snd vUv);
          correctedMouse = (fst uMousePos * aspectRatio, snd uMousePos);
          dist = distance2 correctedUv correctedMouse;
          radius = 0.2;
          strength = smoothstep radius 0.0 dist;
          brush = scale2 (scale2 uMouseVelocity strength) 2.5
      in Vec4 (chR lastDisp + fst brush) (chG lastDisp + snd brush)
              (chB lastDisp) (chA lastDisp))"

text \<open>
  \<^verbatim>\<open>finalRenderMaterial.fragmentShader\<close>. \<^verbatim>\<open>bottomColor.rgb *= 0.2\<close> leaves the alpha
  channel of the bottom sample as it is; \<^verbatim>\<open>topColor.a = smoothstep(...)\<close> overwrites the
  alpha channel of the top sample before the blend.
\<close>

definition finalRender_frag ::
  "sampler2D \<Rightarrow> sampler2D \<Rightarrow> sampler2D \<Rightarrow> vec2 \<Rightarrow> vec4" where
  "finalRender_frag uDisplacementMap uTopTexture uBottomTexture vUv =
     (let disp4 = texture2D uDisplacementMap vUv;
          displacement = (chR disp4, chG disp4);
          topUV = add2 vUv (scale2 displacement 0.1);
          topColor = texture2D uTopTexture topUV;
          bottomUV = add2 vUv (scale2 displacement 0.05);
          bottomColor = texture2D uBottomTexture bottomUV;
          bottomColor = Vec4 (chR bottomColor * 0.2) (chG bottomColor * 0.2)
                             (chB bottomColor * 0.2) (chA bottomColor);
          displacementAmount = length2 displacement;
          topColor = Vec4 (chR topColor) (chG topColor) (chB topColor)
                          (smoothstep 0.1 0.0 displacementAmount)
      in mix4 bottomColor topColor (chA topColor))"

text \<open>
  A run of update passes at one viewport size: each frame renders the shader over the
  whole target, reading the field of the frame before. A frame is the pointer position and
  the pointer velocity that its uniforms hold.
\<close>

fun updatePasses :: "(vec2 \<times> vec2) list \<Rightarrow> vec2 \<Rightarrow> sampler2D \<Rightarrow> sampler2D" where
  "updatePasses [] uResolution field = field"
| "updatePasses ((uMousePos, uMouseVelocity) # frames) uResolution field =
     updatePasses frames uResolution
       (\<lambda>vUv. displacementUpdate_frag field uMousePos uMouseVelocity uResolution vUv)"

section \<open>The frame loop of \<^verbatim>\<open>LIQUID_HERO.init\<close>\<close>

text \<open>
  The closure state of \<^verbatim>\<open>init\<close>. A render target is an object; its identity is a
  number and \<open>contents\<close> is the store that maps each target to the field its texture holds.
  \<open>currentRenderTarget\<close> and \<open>previousRenderTarget\<close> are the two \<^verbatim>\<open>let\<close> variables,
  \<open>uLastFrame_value\<close> and \<open>uDisplacementMap_value\<close> the target whose texture the uniform of
  that name refers to. The uniforms \<^verbatim>\<open>uMousePos\<close> and \<^verbatim>\<open>uMouseVelocity\<close> hold the
  objects \<open>mouse\<close> and \<open>mouseVelocity\<close> themselves, so a pass reads these fields.
\<close>

type_synonym target = nat

record sim =
  mouse :: vec2
  lastMouse :: vec2
  mouseVelocity :: vec2
  currentRenderTarget :: target
  previousRenderTarget :: target
  uLastFrame_value :: target
  uDisplacementMap_value :: target
  uResolution_value :: vec2
  contents :: "target \<Rightarrow> sampler2D"
  screen :: sampler2D
  topTexture :: sampler2D
  bottomTexture :: sampler2D

text \<open>The state that \<^verbatim>\<open>init\<close> builds before the first call of \<^verbatim>\<open>animate\<close>.\<close>

definition init :: "vec2 \<Rightarrow> sampler2D \<Rightarrow> sampler2D \<Rightarrow> sampler2D \<Rightarrow> sim" where
  "init viewport topImage bottomImage blank =
     \<lparr> mouse = (-1, -1), lastMouse = (-1, -1), mouseVelocity = (0, 0),
       currentRenderTarget = 0, previousRenderTarget = 1,
       uLastFrame_value = 1, uDisplacementMap_value = 0,
       uResolution_value = viewport,
       contents = (\<lambda>t vUv. Vec4 0 0 0 0),
       screen = blank, topTexture = topImage, bottomTexture = bottomImage \<rparr>"








text \<open>
  The swap through \<^verbatim>\<open>temp\<close>, followed by the two uniform updates.
\<close>

definition swapRenderTargets :: "sim \<Rightarrow> sim" where
  "swapRenderTargets s =
     (let temp = previousRenderTarget s;
          s1 = s\<lparr> previousRenderTarget := currentRenderTarget s \<rparr>;
          s2 = s1\<lparr> currentRenderTarget := temp \<rparr>;
          s3 = s2\<lparr> uLastFrame_value := previousRenderTarget s2 \<rparr>
      in s3\<lparr> uDisplacementMap_value := currentRenderTarget s3 \<rparr>)"


text \<open>
  The relation between the two variables and the two uniforms that \<^verbatim>\<open>init\<close>
  establishes: two distinct targets, \<^verbatim>\<open>uLastFrame\<close> on the previous one and
  \<^verbatim>\<open>uDisplacementMap\<close> on the current one.
\<close>

definition pingpong :: "sim \<Rightarrow> bool" where
  "pingpong s \<longleftrightarrow>
     currentRenderTarget s \<noteq> previousRenderTarget s \<and>
     uLastFrame_value s = previousRenderTarget s \<and>
     uDisplacementMap_value s = currentRenderTarget s"

section \<open>The content server of \<^verbatim>\<open>main.go\<close>\<close>

subsection \<open>Catalog and startup\<close>

record item =
  ID :: int
  KeywordTitle :: string
  Texts :: "string list"
  VideoPath :: "string list"
  VideoCredit :: "string list"
  ItemLink :: string

type_synonym go_error = string

text \<open>
  What the operating system and the libraries answer during startup: the working
  directory, the path that \<^verbatim>\<open>filepath.Join\<close> builds, the file behind a path, the value
  that the JSON decoder reads from a file, the template set that \<^verbatim>\<open>template.ParseFiles\<close>
  builds, and the outcome of \<^verbatim>\<open>net.Listen\<close>. A failure is \<open>Inl\<close> of its error.
\<close>

record ('file, 'tmpl) startup_env =
  Getwd :: "go_error + string"
  Join :: "string list \<Rightarrow> string"
  Open :: "string \<Rightarrow> go_error + 'file"
  Decode :: "'file \<Rightarrow> go_error + item list"
  ParseFiles :: "string list \<Rightarrow> go_error + 'tmpl"
  Listen :: "string \<Rightarrow> string \<Rightarrow> go_error + unit"

text \<open>Every \<^verbatim>\<open>log.Fatalf\<close> of the program: it logs and exits the process.\<close>

datatype fatal =
    FailedGetwd go_error
  | FailedOpen string go_error
  | FailedDecode go_error
  | FailedParseTemplates go_error
  | FailedListen go_error

definition loadItems :: "('file, 'tmpl) startup_env \<Rightarrow> fatal + item list" where
  "loadItems env =
     (case Getwd env of
        Inl err \<Rightarrow> Inl (FailedGetwd err)
      | Inr currDir \<Rightarrow>
          (let filePath = Join env [currDir, ''static'', ''data'', ''items.json''] in
           case Open env filePath of
             Inl err \<Rightarrow> Inl (FailedOpen filePath err)
           | Inr f \<Rightarrow>
               (case Decode env f of
                  Inl err \<Rightarrow> Inl (FailedDecode err)
                | Inr decoded \<Rightarrow> Inr decoded)))"

text \<open>The two package-level variables \<^verbatim>\<open>items\<close> and \<^verbatim>\<open>tmpl\<close>.\<close>

record 'tmpl server =
  items :: "item list"
  tmpl :: 'tmpl

text \<open>
  A process has either exited through \<^verbatim>\<open>log.Fatalf\<close> or it is serving requests with
  its two variables set. \<open>main_startup\<close> is \<^verbatim>\<open>main\<close> up to the call of
  \<^verbatim>\<open>http.Serve\<close>.
\<close>

datatype 'tmpl process = Exited fatal | Serving "'tmpl server"

definition main_startup :: "('file, 'tmpl) startup_env \<Rightarrow> 'tmpl process" where
  "main_startup env =
     (case loadItems env of
        Inl f \<Rightarrow> Exited f
      | Inr loaded \<Rightarrow>
          (case ParseFiles env [''templates/header.html'', ''templates/footer.html'',
                                ''templates/home.html''] of
             Inl err \<Rightarrow> Exited (FailedParseTemplates err)
           | Inr t \<Rightarrow>
               (case Listen env ''tcp4'' '':8080'' of
                  Inl err \<Rightarrow> Exited (FailedListen err)
                | Inr listener \<Rightarrow> Serving \<lparr> items = loaded, tmpl = t \<rparr>)))"

subsection \<open>Responses\<close>

text \<open>
  The \<^verbatim>\<open>http.ResponseWriter\<close> of one request, as package \<^verbatim>\<open>net/http\<close> documents it:
  the status line is fixed by the first \<^verbatim>\<open>WriteHeader\<close>, a \<^verbatim>\<open>Write\<close> before any
  \<^verbatim>\<open>WriteHeader\<close> sends status 200 first, a later \<^verbatim>\<open>WriteHeader\<close> changes nothing,
  and a handler that returns without writing gets status 200. \<^verbatim>\<open>http.Error\<close> calls
  \<^verbatim>\<open>WriteHeader(code)\<close> and then prints the message and a newline. Header fields other
  than \<^verbatim>\<open>Location\<close> are left out.
\<close>

record response_writer =
  wroteHeader :: bool
  status :: nat
  location :: "string option"
  body :: string

definition newResponse :: response_writer where
  "newResponse = \<lparr> wroteHeader = False, status = 0, location = None, body = [] \<rparr>"

definition WriteHeader :: "nat \<Rightarrow> response_writer \<Rightarrow> response_writer" where
  "WriteHeader code w = (if wroteHeader w then w else w\<lparr> wroteHeader := True, status := code \<rparr>)"

definition Write :: "string \<Rightarrow> response_writer \<Rightarrow> response_writer" where
  "Write bytes w =
     (let w1 = (if wroteHeader w then w else WriteHeader 200 w)
      in w1\<lparr> body := body w1 @ bytes \<rparr>)"

definition http_Error :: "string \<Rightarrow> nat \<Rightarrow> response_writer \<Rightarrow> response_writer" where
  "http_Error err code w = Write (err @ [CHR 0x0A]) (WriteHeader code w)"

definition finishRequest :: "response_writer \<Rightarrow> response_writer" where
  "finishRequest w = (if wroteHeader w then w else WriteHeader 200 w)"

definition StatusOK :: nat where "StatusOK = 200"
definition StatusNotFound :: nat where "StatusNotFound = 404"
definition StatusInternalServerError :: nat where "StatusInternalServerError = 500"

subsection \<open>Handlers\<close>

text \<open>
  The data that a handler passes to the template: \<^verbatim>\<open>nil\<close> or the map with the keys
  \<^verbatim>\<open>Title\<close> and \<^verbatim>\<open>Items\<close>.
\<close>

datatype template_value = TString string | TItems "item list"

type_synonym template_data = "(string \<rightharpoonup> template_value) option"

text \<open>
  What the libraries do while a request is handled. \<^verbatim>\<open>ExecuteTemplate\<close> writes to the
  response as it goes: its outcome is the list of chunks it has written and the error, if
  any, at which it stopped. The file handlers of \<^verbatim>\<open>net/http\<close> are taken as they are,
  and so is the handler with which the mux answers a redirect to a given URL: its status
  code and its body are the library's, \<^verbatim>\<open>main.go\<close> sets neither.
\<close>

record 'tmpl request_env =
  ExecuteTemplate :: "'tmpl \<Rightarrow> string \<Rightarrow> template_data \<Rightarrow> string list \<times> go_error option"
  ServeFile :: "string \<Rightarrow> string \<Rightarrow> response_writer \<Rightarrow> response_writer"
  FileServer :: "string \<Rightarrow> string \<Rightarrow> response_writer \<Rightarrow> response_writer"
  RedirectHandler :: "string \<Rightarrow> response_writer \<Rightarrow> response_writer"

definition executeTemplate ::
  "'tmpl request_env \<Rightarrow> 'tmpl \<Rightarrow> string \<Rightarrow> template_data \<Rightarrow> response_writer
   \<Rightarrow> response_writer \<times> go_error option" where
  "executeTemplate env t name data w =
     (let (chunks, err) = ExecuteTemplate env t name data
      in (foldl (\<lambda>w1 chunk. Write chunk w1) w chunks, err))"

definition homeHandler ::
  "'tmpl request_env \<Rightarrow> 'tmpl server \<Rightarrow> string \<Rightarrow> response_writer \<Rightarrow> response_writer" where
  "homeHandler env srv path w =
     (let data = Some [''Title'' \<mapsto> TString ''BlendingWaves'', ''Items'' \<mapsto> TItems (items srv)];
          (w1, err) = executeTemplate env (tmpl srv) ''home.html'' data w
      in case err of
           Some e \<Rightarrow> http_Error e StatusInternalServerError w1
         | None \<Rightarrow> w1)"

text \<open>The three handlers that wrap a fixed fragment in the header and the footer.\<close>

definition wrappedPage ::
  "string \<Rightarrow> 'tmpl request_env \<Rightarrow> 'tmpl server \<Rightarrow> response_writer \<Rightarrow> response_writer" where
  "wrappedPage fragment env srv w =
     (let (w1, err1) = executeTemplate env (tmpl srv) ''header.html'' None w
      in case err1 of
           Some e \<Rightarrow> http_Error e StatusInternalServerError w1
         | None \<Rightarrow>
             (let w2 = Write fragment w1;
                  (w3, err2) = executeTemplate env (tmpl srv) ''footer.html'' None w2
              in case err2 of
                   Some e \<Rightarrow> http_Error e StatusInternalServerError w3
                 | None \<Rightarrow> w3))"

subsection \<open>Routing\<close>

text \<open>
  The handlers that \<^verbatim>\<open>main\<close> registers on the default \<^verbatim>\<open>ServeMux\<close>, in the order
  of registration.
\<close>

datatype handler = Home | Static | StylesCss | MainJs | Privacy | Tou | Non

definition routes :: "(string \<times> handler) list" where
  "routes = [(''/'', Home), (''/static/'', Static), (''/styles.css'', StylesCss),
             (''/main.js'', MainJs), (''/privacy'', Privacy), (''/tou'', Tou), (''/non'', Non)]"

text \<open>
  \<^verbatim>\<open>ServeMux\<close> of \<^verbatim>\<open>net/http\<close>, for a request that is not \<^verbatim>\<open>CONNECT\<close>, whose
  target is a path, and patterns without a host. \<open>cleanPath\<close> is the canonical form of a path: a leading slash, no empty,
  \<^verbatim>\<open>.\<close> or \<^verbatim>\<open>..\<close> element, the trailing slash kept.
\<close>

fun splitSlash :: "string \<Rightarrow> string list" where
  "splitSlash [] = [ [] ]"
| "splitSlash (c # cs) =
     (if c = CHR ''/'' then [] # splitSlash cs
      else (case splitSlash cs of [] \<Rightarrow> [ [c] ] | e # es \<Rightarrow> (c # e) # es))"

fun cleanElems :: "string list \<Rightarrow> string list \<Rightarrow> string list" where
  "cleanElems kept [] = rev kept"
| "cleanElems kept (e # es) =
     (if e = [] \<or> e = ''.'' then cleanElems kept es
      else if e = ''..'' then cleanElems (case kept of [] \<Rightarrow> [] | k # ks \<Rightarrow> ks) es
      else cleanElems (e # kept) es)"

fun joinSlash :: "string list \<Rightarrow> string" where
  "joinSlash [] = []"
| "joinSlash [e] = e"
| "joinSlash (e # es) = e @ ''/'' @ joinSlash es"

definition pathClean :: "string \<Rightarrow> string" where
  "pathClean p = ''/'' @ joinSlash (cleanElems [] (splitSlash p))"

definition cleanPath :: "string \<Rightarrow> string" where
  "cleanPath p =
     (if p = [] then ''/''
      else (let p1 = (if hd p \<noteq> CHR ''/'' then ''/'' @ p else p);
                np = pathClean p1
            in if last p1 = CHR ''/'' \<and> np \<noteq> ''/'' then np @ ''/'' else np))"

text \<open>
  A pattern that ends in a slash names a subtree and matches every path below it; any other
  pattern matches its own path only. An exact match wins, then the longest subtree.
\<close>

definition muxMatch :: "(string \<times> handler) list \<Rightarrow> string \<Rightarrow> (string \<times> handler) option" where
  "muxMatch rs path =
     (case map_of rs path of
        Some h \<Rightarrow> Some (path, h)
      | None \<Rightarrow>
          foldl (\<lambda>best (pat, h).
                   if pat \<noteq> [] \<and> last pat = CHR ''/'' \<and> prefix pat path
                      \<and> (case best of None \<Rightarrow> True | Some (q, _) \<Rightarrow> length q < length pat)
                   then Some (pat, h) else best)
                None rs)"

text \<open>
  A path that names a registered subtree without its trailing slash, and is not
  registered itself, is redirected to the subtree.
\<close>

definition shouldRedirect :: "(string \<times> handler) list \<Rightarrow> string \<Rightarrow> bool" where
  "shouldRedirect rs path \<longleftrightarrow>
     map_of rs path = None \<and> path \<noteq> [] \<and> map_of rs (path @ ''/'') \<noteq> None
     \<and> last path \<noteq> CHR ''/''"

datatype dispatch = Handle handler | Redirect string | NotFound

definition muxHandler :: "(string \<times> handler) list \<Rightarrow> string \<Rightarrow> dispatch" where
  "muxHandler rs urlPath =
     (let path = cleanPath urlPath in
      if shouldRedirect rs path then Redirect (path @ ''/'')
      else if path \<noteq> urlPath then Redirect path
      else (case muxMatch rs urlPath of
              Some (pat, h) \<Rightarrow> Handle h
            | None \<Rightarrow> NotFound))"

text \<open>
  One request served by a running process: the mux picks the handler, the handler writes
  the response. \<^verbatim>\<open>http.StripPrefix\<close> answers 404 for a path without the prefix and
  passes the rest of the path on otherwise. No handler assigns to \<^verbatim>\<open>items\<close> or
  \<^verbatim>\<open>tmpl\<close> or exits, so the process is returned as it was.
\<close>

definition runHandler ::
  "'tmpl request_env \<Rightarrow> 'tmpl server \<Rightarrow> handler \<Rightarrow> string \<Rightarrow> response_writer \<Rightarrow> response_writer" where
  "runHandler env srv h path w =
     (case h of
        Home \<Rightarrow> homeHandler env srv path w
      | Static \<Rightarrow>
          (if prefix ''/static/'' path
           then FileServer env ''./static'' (drop (length ''/static/'') path) w
           else http_Error ''404 page not found'' StatusNotFound w)
      | StylesCss \<Rightarrow> ServeFile env path ''styles.css'' w
      | MainJs \<Rightarrow> ServeFile env path ''main.js'' w
      | Privacy \<Rightarrow>
          wrappedPage ''<h1>Privacy Policy</h1><p>Your privacy is important to us.</p>'' env srv w
      | Tou \<Rightarrow>
          wrappedPage ''<h1>Terms of Use</h1><p>Please read our terms of use.</p>'' env srv w
      | Non \<Rightarrow>
          wrappedPage
            ''<h1>Nondiscrimination Policy</h1><p>We are committed to nondiscrimination.</p>''
            env srv w)"

definition serveHTTP ::
  "'tmpl request_env \<Rightarrow> string \<Rightarrow> 'tmpl server \<Rightarrow> 'tmpl process \<times> response_writer" where
  "serveHTTP env urlPath srv =
     (Serving srv,
      finishRequest
        (case muxHandler routes urlPath of
           Handle h \<Rightarrow> runHandler env srv h urlPath newResponse
         | Redirect url \<Rightarrow> RedirectHandler env url newResponse
         | NotFound \<Rightarrow> http_Error ''404 page not found'' StatusNotFound newResponse))"

section \<open>Properties of the built-in functions\<close>

text \<open>
  Both shaders use \<open>smoothstep e 0 x\<close> with \<open>0 < e\<close>: a falloff that is 1 at 0,
  decreases and is 0 from \<open>e\<close> on.
\<close>

lemma smoothstep_down:
  "0 < e \<Longrightarrow> smoothstep e 0 x = (let t = clamp (1 - x / e) 0 1 in t * t * (3 - 2 * t))"
  by (simp add: smoothstep_def Let_def diff_divide_distrib)

lemma smoothstep_down_at_zero: "0 < e \<Longrightarrow> smoothstep e 0 0 = 1"
  by (simp add: smoothstep_def clamp_def)

lemma smoothstep_down_beyond: "0 < e \<Longrightarrow> e \<le> x \<Longrightarrow> smoothstep e 0 x = 0"
  by (simp add: smoothstep_down clamp_def Let_def)

lemma hermite_mono:
  fixes s t :: real
  assumes "0 \<le> s" "s \<le> t" "t \<le> 1"
  shows "s * s * (3 - 2 * s) \<le> t * t * (3 - 2 * t)"
proof -
  have eq: "t * t * (3 - 2 * t) - s * s * (3 - 2 * s)
      = (t - s) * (3 * (t + s) - 2 * (t * t + t * s + s * s))"
    by (simp add: algebra_simps)
  have "0 \<le> 3 * (t + s) - 2 * (t * t + t * s + s * s)"
  proof -
    have "t * t \<le> t" "s * s \<le> s" "t * s \<le> s"
      using assms by (simp_all add: mult_left_le mult_left_le_one_le mult_right_le_one_le)
    then show ?thesis using assms(2) by (simp add: algebra_simps)
  qed
  then have "0 \<le> (t - s) * (3 * (t + s) - 2 * (t * t + t * s + s * s))"
    using assms(2) by (intro mult_nonneg_nonneg) simp_all
  then show ?thesis using eq by linarith
qed

lemma clamp_unit: "0 \<le> clamp x 0 1 \<and> clamp x 0 1 \<le> 1"
  by (simp add: clamp_def)

lemma clamp_mono: "x \<le> y \<Longrightarrow> clamp x lo hi \<le> clamp y lo hi"
  by (simp add: clamp_def min_def max_def)

lemma smoothstep_down_antimono:
  assumes "0 < e" "x \<le> y"
  shows "smoothstep e 0 y \<le> smoothstep e 0 x"
proof -
  have "1 - y / e \<le> 1 - x / e"
    using assms by (simp add: divide_right_mono)
  then have "clamp (1 - y / e) 0 1 \<le> clamp (1 - x / e) 0 1"
    by (rule clamp_mono)
  then show ?thesis
    using clamp_unit [of "1 - y / e"] clamp_unit [of "1 - x / e"]
    by (simp add: smoothstep_down [OF assms(1)] Let_def hermite_mono)
qed

lemma smoothstep_range: "0 \<le> smoothstep e0 e1 x \<and> smoothstep e0 e1 x \<le> 1"
proof -
  define t where "t = clamp ((x - e0) / (e1 - e0)) 0 1"
  have t: "0 \<le> t" "t \<le> 1" using clamp_unit by (simp_all add: t_def)
  have "0 * 0 * (3 - 2 * 0) \<le> t * t * (3 - 2 * t)" "t * t * (3 - 2 * t) \<le> 1 * 1 * (3 - 2 * 1)"
    using t by (intro hermite_mono; simp)+
  then show ?thesis by (simp add: smoothstep_def Let_def t_def)
qed

lemma smoothstep_continuous: "continuous_on UNIV (\<lambda>x. smoothstep e0 e1 x)"
proof -
  have "continuous_on UNIV (\<lambda>x. (x - e0) * inverse (e1 - e0))"
    by (intro continuous_on_mult_right continuous_on_diff continuous_on_id continuous_on_const)
  then have "continuous_on UNIV (\<lambda>x. clamp ((x - e0) / (e1 - e0)) 0 1)"
    unfolding clamp_def divide_inverse by (intro continuous_intros)
  then show ?thesis
    unfolding smoothstep_def Let_def by (intro continuous_intros)
qed

lemma smoothstep_down_inside:
  assumes "0 < e" "0 < x" "x < e"
  shows "0 < smoothstep e 0 x \<and> smoothstep e 0 x < 1"
proof -
  define t where "t = 1 - x / e"
  have t: "0 < t" "t < 1" using assms by (simp_all add: t_def)
  have c: "clamp t 0 1 = t" using t by (simp add: clamp_def)
  have "0 < t * t * (3 - 2 * t)" using t by simp
  moreover have "1 - t * t * (3 - 2 * t) = (1 - t) * (1 - t) * (1 + 2 * t)"
    by (simp add: algebra_simps power2_eq_square power3_eq_cube)
  moreover have "0 < (1 - t) * (1 - t) * (1 + 2 * t)" using t by simp
  ultimately show ?thesis
    using c by (simp add: smoothstep_down [OF assms(1)] Let_def t_def [symmetric])
qed

lemma hermite_DERIV:
  "((\<lambda>x. (1 - x / e) * (1 - x / e) * (3 - 2 * (1 - x / e))) has_real_derivative
      - (6 / e) * (1 - x / e) * (1 - (1 - x / e))) (at x)"
  by (auto intro!: derivative_eq_intros simp: algebra_simps power2_eq_square divide_simps)

lemma DERIV_zero_by_square_bound:
  fixes f :: "real \<Rightarrow> real"
  assumes "\<And>h. \<bar>f (x + h) - f x\<bar> \<le> c * (h * h)"
  shows "(f has_real_derivative 0) (at x)"
proof -
  have "((\<lambda>h. (f (x + h) - f x) / h) \<longlongrightarrow> 0) (at 0)"
  proof (rule tendsto_0_le [where f = "\<lambda>h. h" and K = "\<bar>c\<bar>"])
    show "((\<lambda>h::real. h) \<longlongrightarrow> 0) (at 0)"
      by (rule tendsto_ident_at)
    show "\<forall>\<^sub>F h in at 0. norm ((f (x + h) - f x) / h) \<le> norm h * \<bar>c\<bar>"
    proof (rule always_eventually, rule allI)
      fix h :: real
      show "norm ((f (x + h) - f x) / h) \<le> norm h * \<bar>c\<bar>"
      proof (cases "h = 0")
        case True
        then show ?thesis by simp
      next
        case False
        have "c * (h * h) \<le> \<bar>c\<bar> * (\<bar>h\<bar> * \<bar>h\<bar>)"
          by (metis abs_ge_self abs_mult abs_mult_self_eq)
        then have "\<bar>f (x + h) - f x\<bar> \<le> \<bar>c\<bar> * (\<bar>h\<bar> * \<bar>h\<bar>)"
          using assms [of h] by linarith
        then have "\<bar>f (x + h) - f x\<bar> / \<bar>h\<bar> \<le> \<bar>c\<bar> * \<bar>h\<bar>"
          using False by (simp add: divide_le_eq mult.assoc)
        then show ?thesis by (simp add: mult.commute)
      qed
    qed
  qed
  then show ?thesis by (simp add: DERIV_def)
qed


lemma one_minus_hermite_le:
  fixes t :: real
  assumes "0 \<le> t" "t \<le> 1"
  shows "\<bar>t * t * (3 - 2 * t) - 1\<bar> \<le> 3 * ((1 - t) * (1 - t))"
proof -
  have eq: "1 - t * t * (3 - 2 * t) = (1 - t) * (1 - t) * (1 + 2 * t)"
    by (simp add: algebra_simps)
  have "0 \<le> (1 - t) * (1 - t)" by simp
  then have "(1 - t) * (1 - t) * (1 + 2 * t) \<le> (1 - t) * (1 - t) * 3"
    using assms by (intro mult_left_mono) simp_all
  moreover have "0 \<le> (1 - t) * (1 - t) * (1 + 2 * t)"
    using assms by simp
  ultimately show ?thesis using eq by linarith
qed

lemma hermite_le:
  fixes t :: real
  assumes "0 \<le> t" "t \<le> 1"
  shows "\<bar>t * t * (3 - 2 * t)\<bar> \<le> 3 * (t * t)"
proof -
  have "0 \<le> t * t" by simp
  then have "t * t * (3 - 2 * t) \<le> t * t * 3"
    using assms by (intro mult_left_mono) simp_all
  moreover have "0 \<le> t * t * (3 - 2 * t)"
    using assms by simp
  ultimately show ?thesis by linarith
qed

lemma clamp_down_cases:
  assumes "0 < e"
  shows "clamp (1 - h / e) 0 1 = (if h \<le> 0 then 1 else if e \<le> h then 0 else 1 - h / e)"
proof -
  consider "h \<le> 0" | "e \<le> h" "0 < h" | "0 < h" "h < e"
    by linarith
  then show ?thesis
  proof cases
    case 1
    then have "h / e \<le> 0" using assms by (simp add: divide_nonpos_pos)
    then show ?thesis using 1 by (simp add: clamp_def)
  next
    case 2
    then have "1 \<le> h / e" using assms by simp
    then show ?thesis using 2 by (simp add: clamp_def)
  next
    case 3
    then have "0 < h / e" "h / e < 1" using assms by simp_all
    then show ?thesis using 3 by (simp add: clamp_def)
  qed
qed

lemma abs_over_edge:
  fixes h e :: real
  assumes "0 < e" "e \<le> \<bar>h\<bar>"
  shows "1 \<le> \<bar>h\<bar> / e"
  using assms by (simp add: pos_le_divide_eq)

lemma clamp_down_gap:
  assumes "0 < e"
  shows "0 \<le> 1 - clamp (1 - h / e) 0 1 \<and> 1 - clamp (1 - h / e) 0 1 \<le> \<bar>h\<bar> / e"
proof -
  consider "h \<le> 0" | "e \<le> h" "0 < h" | "0 < h" "h < e"
    by linarith
  then show ?thesis
  proof cases
    case 1
    have "0 \<le> \<bar>h\<bar> / e" using assms by simp
    then show ?thesis using 1 assms by (simp add: clamp_down_cases [OF assms])
  next
    case 2
    then have "1 \<le> \<bar>h\<bar> / e" using assms by (intro abs_over_edge) simp_all
    then show ?thesis using 2 assms by (simp add: clamp_down_cases)
  next
    case 3
    then show ?thesis using assms by (simp add: clamp_down_cases)
  qed
qed

lemma clamp_down_at_edge:
  assumes "0 < e"
  shows "0 \<le> clamp (1 - (e + h) / e) 0 1 \<and> clamp (1 - (e + h) / e) 0 1 \<le> \<bar>h\<bar> / e"
proof -
  have eq: "1 - (e + h) / e = - h / e"
    using assms by (simp add: field_simps)
  consider "e + h \<le> 0" | "0 \<le> h" | "h < 0" "0 < e + h"
    by linarith
  then show ?thesis
  proof cases
    case 1
    then have "1 \<le> \<bar>h\<bar> / e" using assms by (intro abs_over_edge) simp_all
    then show ?thesis using 1 assms by (simp add: clamp_down_cases [OF assms])
  next
    case 2
    then have "\<not> e + h \<le> 0" "e \<le> e + h" using assms by simp_all
    then show ?thesis using assms by (simp add: clamp_down_cases [OF assms])
  next
    case 3
    then have "\<not> e + h \<le> 0" "\<not> e \<le> e + h" by simp_all
    then have "clamp (1 - (e + h) / e) 0 1 = 1 - (e + h) / e"
      by (simp add: clamp_down_cases [OF assms])
    moreover have "- h / e = \<bar>h\<bar> / e" "0 \<le> \<bar>h\<bar> / e"
      using 3 assms by (simp_all add: divide_le_0_iff)
    ultimately show ?thesis using eq by simp
  qed
qed

lemma square_le_square_div:
  fixes a h e :: real
  assumes "0 < e" "0 \<le> a" "a \<le> \<bar>h\<bar> / e"
  shows "3 * (a * a) \<le> (3 / (e * e)) * (h * h)"
proof -
  have "a * a \<le> (\<bar>h\<bar> / e) * (\<bar>h\<bar> / e)"
    using assms by (intro mult_mono) simp_all
  also have "\<dots> = (h * h) / (e * e)"
    by simp
  finally show ?thesis by simp
qed

lemma smoothstep_near_zero:
  assumes "0 < e"
  shows "\<bar>smoothstep e 0 (0 + h) - smoothstep e 0 0\<bar> \<le> (3 / (e * e)) * (h * h)"
proof -
  define t where "t = clamp (1 - h / e) 0 1"
  have t: "0 \<le> t" "t \<le> 1" using clamp_unit by (simp_all add: t_def)
  have "0 \<le> 1 - t" "1 - t \<le> \<bar>h\<bar> / e"
    using clamp_down_gap [OF assms, of h] by (simp_all add: t_def)
  then have "3 * ((1 - t) * (1 - t)) \<le> (3 / (e * e)) * (h * h)"
    using assms by (intro square_le_square_div)
  moreover have "smoothstep e 0 (0 + h) = t * t * (3 - 2 * t)"
    by (simp add: smoothstep_down [OF assms] Let_def t_def)
  moreover have "smoothstep e 0 0 = 1"
    using assms by (rule smoothstep_down_at_zero)
  ultimately show ?thesis
    using one_minus_hermite_le [OF t] by linarith
qed


lemma smoothstep_near_edge:
  assumes "0 < e"
  shows "\<bar>smoothstep e 0 (e + h) - smoothstep e 0 e\<bar> \<le> (3 / (e * e)) * (h * h)"
proof -
  define t where "t = clamp (1 - (e + h) / e) 0 1"
  have t: "0 \<le> t" "t \<le> 1" using clamp_unit by (simp_all add: t_def)
  have "t \<le> \<bar>h\<bar> / e"
    using clamp_down_at_edge [OF assms, of h] by (simp add: t_def)
  then have "3 * (t * t) \<le> (3 / (e * e)) * (h * h)"
    using assms t by (intro square_le_square_div)
  moreover have "smoothstep e 0 (e + h) = t * t * (3 - 2 * t)"
    by (simp only: smoothstep_down [OF assms] Let_def t_def)
  moreover have "smoothstep e 0 e = 0"
    using assms by (simp add: smoothstep_down_beyond)
  ultimately show ?thesis
    using hermite_le [OF t] by linarith
qed

lemma smoothstep_down_differentiable:
  assumes "0 < e"
  shows "\<exists>D. ((\<lambda>x. smoothstep e 0 x) has_real_derivative D) (at x)"
proof -
  consider "x < 0" | "x = 0" | "0 < x" "x < e" | "x = e" | "e < x"
    by linarith
  then show ?thesis
  proof cases
    case 1
    have d: "((\<lambda>x. 1::real) has_real_derivative 0) (at x)" by simp
    have eq: "\<And>y. y \<in> {..<0} \<Longrightarrow> 1 = smoothstep e 0 y"
      using assms by (simp add: smoothstep_down clamp_down_cases Let_def)
    have "x \<in> {..<0}" using 1 by simp
    from has_field_derivative_transform_within_open [OF d open_lessThan this eq]
    have "((\<lambda>x. smoothstep e 0 x) has_real_derivative 0) (at x)" .
    then show ?thesis ..
  next
    case 2
    have "((\<lambda>x. smoothstep e 0 x) has_real_derivative 0) (at 0)"
      using smoothstep_near_zero [OF assms] by (rule DERIV_zero_by_square_bound)
    then show ?thesis using 2 by blast
  next
    case 3
    have eq: "\<And>y. y \<in> {0<..<e} \<Longrightarrow>
        (1 - y / e) * (1 - y / e) * (3 - 2 * (1 - y / e)) = smoothstep e 0 y"
      using assms by (simp add: smoothstep_down clamp_down_cases Let_def)
    have "x \<in> {0<..<e}" using 3 by simp
    from has_field_derivative_transform_within_open
      [OF hermite_DERIV open_greaterThanLessThan this eq]
    have "((\<lambda>x. smoothstep e 0 x) has_real_derivative
        - (6 / e) * (1 - x / e) * (1 - (1 - x / e))) (at x)" .
    then show ?thesis ..
  next
    case 4
    have "((\<lambda>x. smoothstep e 0 x) has_real_derivative 0) (at e)"
      using smoothstep_near_edge [OF assms] by (rule DERIV_zero_by_square_bound)
    then show ?thesis using 4 by blast
  next
    case 5
    have d: "((\<lambda>x. 0::real) has_real_derivative 0) (at x)" by simp
    have eq: "\<And>y. y \<in> {e<..} \<Longrightarrow> 0 = smoothstep e 0 y"
      using assms by (simp add: smoothstep_down_beyond)
    have "x \<in> {e<..}" using 5 by simp
    from has_field_derivative_transform_within_open [OF d open_greaterThan this eq]
    have "((\<lambda>x. smoothstep e 0 x) has_real_derivative 0) (at x)" .
    then show ?thesis ..
  qed
qed

lemma length4_scale4: "length4 (scale4 c k) = \<bar>k\<bar> * length4 c"
proof -
  have "chR c * k * (chR c * k) + chG c * k * (chG c * k) + chB c * k * (chB c * k)
        + chA c * k * (chA c * k)
      = (k * k) * (chR c * chR c + chG c * chG c + chB c * chB c + chA c * chA c)"
    by (simp add: algebra_simps)
  then show ?thesis
    by (simp add: length4_def scale4_def real_sqrt_mult)
qed

lemma length2_scale2: "length2 (scale2 p k) = \<bar>k\<bar> * length2 p"
proof -
  have "fst p * k * (fst p * k) + snd p * k * (snd p * k)
      = (k * k) * (fst p * fst p + snd p * snd p)"
    by (simp add: algebra_simps)
  then show ?thesis
    by (simp add: length2_def scale2_def real_sqrt_mult)
qed

lemma length4_zero_iff: "length4 c = 0 \<longleftrightarrow> c = Vec4 0 0 0 0"
proof -
  have "chR c * chR c + chG c * chG c + chB c * chB c + chA c * chA c = 0
        \<longleftrightarrow> chR c = 0 \<and> chG c = 0 \<and> chB c = 0 \<and> chA c = 0"
    by (simp add: add_nonneg_eq_0_iff)
  then show ?thesis
    by (cases c) (simp add: length4_def)
qed

lemma length4_nonneg: "0 \<le> length4 c"
  by (simp add: length4_def)

lemma length2_nonneg: "0 \<le> length2 p"
  by (simp add: length2_def)

lemma length2_zero_iff: "length2 p = 0 \<longleftrightarrow> p = (0, 0)"
proof -
  have "fst p * fst p + snd p * snd p = 0 \<longleftrightarrow> fst p = 0 \<and> snd p = 0"
    by (simp add: add_nonneg_eq_0_iff)
  then show ?thesis
    by (cases p) (simp add: length2_def)
qed

lemma update_zero_velocity:
  "displacementUpdate_frag f p (0, 0) res uv = scale4 (f uv) 0.95"
  by (simp add: displacementUpdate_frag_def Let_def scale2_def scale4_def texture2D_def)

lemma updatePasses_zero_velocity:
  "\<forall>(p, v) \<in> set frames. v = (0, 0) \<Longrightarrow>
   updatePasses frames res f uv = scale4 (f uv) (0.95 ^ length frames)"
proof (induction frames arbitrary: f)
  case Nil
  show ?case by (cases "f uv") (simp add: scale4_def)
next
  case (Cons fr frames)
  obtain p v where fr: "fr = (p, v)" by (cases fr)
  from Cons.prems fr have v: "v = (0, 0)" and rest: "\<forall>(p, v) \<in> set frames. v = (0, 0)"
    by auto
  show ?case
    by (simp add: fr v Cons.IH [OF rest] update_zero_velocity scale4_def mult.assoc)
qed

lemma correctedDist:
  "distance2 (fst vUv * a, snd vUv) (fst m * a, snd m)
   = sqrt (((fst vUv - fst m) * a)\<^sup>2 + (snd vUv - snd m)\<^sup>2)"
  by (simp add: distance2_def length2_def sub2_def power2_eq_square algebra_simps)

lemma scaled_length4_less: "c \<noteq> Vec4 0 0 0 0 \<Longrightarrow> length4 (scale4 c 0.95) < length4 c"
proof -
  assume "c \<noteq> Vec4 0 0 0 0"
  then have "0 < length4 c"
    using length4_zero_iff [of c] length4_nonneg [of c] by linarith
  then show ?thesis by (simp add: length4_scale4)
qed

lemma scaled_length2_less:
  assumes "p \<noteq> (0, 0)"
  shows "length2 (scale2 p 0.95) < length2 p"
proof -
  have "0 < length2 p"
    using assms length2_zero_iff [of p] length2_nonneg [of p] by linarith
  then show ?thesis by (simp add: length2_scale2)
qed

lemma updatePasses_snoc:
  "updatePasses (frames @ [(p, v)]) res f uv
   = displacementUpdate_frag (updatePasses frames res f) p v res uv"
  by (induction frames arbitrary: f) auto

lemma vanishing:
  assumes "0 < eps"
  shows "\<exists>n. \<forall>m\<ge>n. (0.95::real) ^ m * L < eps"
proof (cases "0 < L")
  case True
  then have "0 < eps / L" using assms by simp
  then obtain n where n: "(0.95::real) ^ n < eps / L"
    using real_arch_pow_inv [of "eps / L" "0.95"] by auto
  have "\<forall>m\<ge>n. (0.95::real) ^ m * L < eps"
  proof (intro allI impI)
    fix m assume "n \<le> m"
    then have "(0.95::real) ^ m \<le> 0.95 ^ n"
      by (intro power_decreasing) simp_all
    then have "(0.95::real) ^ m < eps / L" using n by linarith
    then show "(0.95::real) ^ m * L < eps"
      using True by (simp add: pos_less_divide_eq)
  qed
  then show ?thesis ..
next
  case False
  have "\<forall>m\<ge>0. (0.95::real) ^ m * L < eps"
  proof (intro allI impI)
    fix m :: nat
    have "(0.95::real) ^ m * L \<le> 0"
      using False by (simp add: mult_nonneg_nonpos)
    then show "(0.95::real) ^ m * L < eps" using assms by linarith
  qed
  then show ?thesis ..
qed

lemma brush_near_far:
  assumes "0 < snd uResolution"
    and "aspect = fst uResolution / snd uResolution"
    and "decayed = scale4 (uLastFrame vUv) 0.95"
    and "distance2 (fst vUv * aspect, snd vUv) (fst nearMouse * aspect, snd nearMouse) = 0"
    and "0.2 \<le> distance2 (fst vUv * aspect, snd vUv) (fst farMouse * aspect, snd farMouse)"
    and "near = displacementUpdate_frag uLastFrame nearMouse V uResolution vUv"
    and "far = displacementUpdate_frag uLastFrame farMouse V uResolution vUv"
  shows "far = decayed
    \<and> sub2 (chR near, chG near) (chR decayed, chG decayed) = scale2 V 2.5
    \<and> length2 (sub2 (chR far, chG far) (chR decayed, chG decayed)) = 0
    \<and> length2 (sub2 (chR near, chG near) (chR decayed, chG decayed)) = 2.5 * length2 V
    \<and> (V \<noteq> (0, 0) \<longrightarrow>
         length2 (sub2 (chR far, chG far) (chR decayed, chG decayed))
           < length2 (sub2 (chR near, chG near) (chR decayed, chG decayed)))"
proof -
  have s_far: "smoothstep (1/5) 0 (distance2 (fst vUv * aspect, snd vUv)
                 (fst farMouse * aspect, snd farMouse)) = 0"
    using assms(5) by (intro smoothstep_down_beyond) simp_all
  have s_near: "smoothstep (1/5) 0 (distance2 (fst vUv * aspect, snd vUv)
                 (fst nearMouse * aspect, snd nearMouse)) = 1"
    unfolding assms(4) by (intro smoothstep_down_at_zero) simp
  have far: "far = decayed"
    unfolding assms(7) assms(3) displacementUpdate_frag_def Let_def assms(2) [symmetric]
    by (simp add: scale2_def scale4_def texture2D_def s_far)
  have near: "sub2 (chR near, chG near) (chR decayed, chG decayed) = scale2 V 2.5"
    unfolding assms(6) assms(3) displacementUpdate_frag_def Let_def assms(2) [symmetric]
    by (simp add: scale2_def scale4_def sub2_def texture2D_def s_near)
  have far0: "length2 (sub2 (chR far, chG far) (chR decayed, chG decayed)) = 0"
    by (simp add: far sub2_def length2_def)
  have near_len: "length2 (sub2 (chR near, chG near) (chR decayed, chG decayed)) = 2.5 * length2 V"
    by (simp add: near length2_scale2)
  have "V \<noteq> (0, 0) \<longrightarrow> 0 < length2 V"
    using length2_zero_iff [of V] length2_nonneg [of V] by auto
  then have "V \<noteq> (0, 0) \<longrightarrow>
         length2 (sub2 (chR far, chG far) (chR decayed, chG decayed))
           < length2 (sub2 (chR near, chG near) (chR decayed, chG decayed))"
    by (simp add: far0 near_len)
  with far near far0 near_len show ?thesis by blast
qed


lemma swap_fields:
  "currentRenderTarget (swapRenderTargets s) = previousRenderTarget s"
  "previousRenderTarget (swapRenderTargets s) = currentRenderTarget s"
  "uLastFrame_value (swapRenderTargets s) = currentRenderTarget s"
  "uDisplacementMap_value (swapRenderTargets s) = previousRenderTarget s"
  "contents (swapRenderTargets s) = contents s"
  "screen (swapRenderTargets s) = screen s"
  "mouse (swapRenderTargets s) = mouse s"
  "lastMouse (swapRenderTargets s) = lastMouse s"
  "mouseVelocity (swapRenderTargets s) = mouseVelocity s"
  by (simp_all add: swapRenderTargets_def Let_def)

lemma swap_pingpong: "pingpong s \<Longrightarrow> pingpong (swapRenderTargets s)"
  by (auto simp: pingpong_def swap_fields)

lemma swap_swap: "pingpong s \<Longrightarrow> swapRenderTargets (swapRenderTargets s) = s"
  by (simp add: swapRenderTargets_def Let_def pingpong_def)







section \<open>Properties of the mux and of the response writer\<close>


lemma cleanPath_root: "cleanPath ''/'' = ''/''"
  by (simp add: cleanPath_def pathClean_def Let_def)






lemma shouldRedirect_routes: "shouldRedirect routes p \<longleftrightarrow> p = ''/static''"
  by (auto simp: shouldRedirect_def routes_def)

lemma foldl_Write_wroteHeader:
  "wroteHeader (foldl (\<lambda>w1 chunk. Write chunk w1) w chunks) \<longleftrightarrow> wroteHeader w \<or> chunks \<noteq> []"
  by (induction chunks arbitrary: w) (auto simp: Write_def WriteHeader_def Let_def)

lemma foldl_Write_status:
  "status (foldl (\<lambda>w1 chunk. Write chunk w1) w chunks)
   = (if wroteHeader w \<or> chunks = [] then status w else 200)"
  by (induction chunks arbitrary: w) (auto simp: Write_def WriteHeader_def Let_def)

lemma foldl_Write_body:
  "body (foldl (\<lambda>w1 chunk. Write chunk w1) w chunks) = body w @ concat chunks"
  by (induction chunks arbitrary: w) (auto simp: Write_def WriteHeader_def Let_def)

lemma homeHandler_response:
  assumes "ExecuteTemplate env (tmpl srv) ''home.html''
             (Some [''Title'' \<mapsto> TString ''BlendingWaves'', ''Items'' \<mapsto> TItems (items srv)])
           = (chunks, err)"
  shows "status (finishRequest (homeHandler env srv path newResponse))
           = (if chunks = [] \<and> err \<noteq> None then StatusInternalServerError else StatusOK)"
    and "body (finishRequest (homeHandler env srv path newResponse))
           = concat chunks @ (case err of None \<Rightarrow> [] | Some e \<Rightarrow> e @ [CHR 0x0A])"
proof -
  define w1 where "w1 = foldl (\<lambda>w1 chunk. Write chunk w1) newResponse chunks"
  have hw: "wroteHeader w1 \<longleftrightarrow> chunks \<noteq> []" "status w1 = (if chunks = [] then 0 else 200)"
    "body w1 = concat chunks"
    by (simp_all add: w1_def foldl_Write_wroteHeader foldl_Write_status foldl_Write_body
        newResponse_def)
  have hh: "homeHandler env srv path newResponse
            = (case err of Some e \<Rightarrow> http_Error e StatusInternalServerError w1 | None \<Rightarrow> w1)"
    by (cases err) (simp_all add: homeHandler_def executeTemplate_def assms w1_def)
  show "status (finishRequest (homeHandler env srv path newResponse))
           = (if chunks = [] \<and> err \<noteq> None then StatusInternalServerError else StatusOK)"
    by (cases err; cases "chunks = []")
       (simp_all add: hh finishRequest_def http_Error_def Write_def WriteHeader_def hw Let_def
        StatusOK_def)
  show "body (finishRequest (homeHandler env srv path newResponse))
           = concat chunks @ (case err of None \<Rightarrow> [] | Some e \<Rightarrow> e @ [CHR 0x0A])"
    by (cases err; cases "chunks = []")
       (simp_all add: hh finishRequest_def http_Error_def Write_def WriteHeader_def hw Let_def)
qed

lemma muxMatch_root: "muxMatch routes ''/'' = Some (''/'', Home)"
  by (simp add: muxMatch_def routes_def)

lemma muxHandler_root: "muxHandler routes ''/'' = Handle Home"
  by (simp add: muxHandler_def cleanPath_root shouldRedirect_routes Let_def muxMatch_root)

lemma serveHTTP_root:
  "serveHTTP env ''/'' srv = (Serving srv, finishRequest (homeHandler env srv ''/'' newResponse))"
  by (simp add: serveHTTP_def muxHandler_root runHandler_def)


section \<open>The claims about the simulation\<close>

text \<open>
  Claim C1. For a viewport of positive height, the update pass returns the previous value
  times 0.95 on all four channels and adds, to the channels r and g only and after the decay,
  the pointer velocity times the brush strength times 2.5. The strength is \<open>smoothstep\<close>
  of the distance between the fragment and the pointer, both with the x coordinate
  multiplied by the aspect ratio; it is 1 at distance 0, 0 from distance 0.2 on, never
  increases with the distance, lies strictly between 0 and 1 in between, and is continuous
  and differentiable at every distance.
\<close>

theorem update_pass_decays_then_adds_brush:
  assumes "0 < snd uResolution"
  shows "displacementUpdate_frag uLastFrame uMousePos uMouseVelocity uResolution vUv =
      (let prev = uLastFrame vUv;
           aspect = fst uResolution / snd uResolution;
           d = sqrt (((fst vUv - fst uMousePos) * aspect)\<^sup>2 + (snd vUv - snd uMousePos)\<^sup>2);
           w = smoothstep 0.2 0 d
       in Vec4 (0.95 * chR prev + 2.5 * w * fst uMouseVelocity)
               (0.95 * chG prev + 2.5 * w * snd uMouseVelocity)
               (0.95 * chB prev) (0.95 * chA prev))
    \<and> smoothstep 0.2 0 0 = 1
    \<and> (\<forall>d. 0.2 \<le> d \<longrightarrow> smoothstep 0.2 0 d = 0)
    \<and> (\<forall>d d'. d \<le> d' \<longrightarrow> smoothstep 0.2 0 d' \<le> smoothstep 0.2 0 d)
    \<and> (\<forall>d. 0 < d \<and> d < 0.2 \<longrightarrow> 0 < smoothstep 0.2 0 d \<and> smoothstep 0.2 0 d < 1)
    \<and> continuous_on UNIV (\<lambda>d. smoothstep 0.2 0 d)
    \<and> (\<forall>d. \<exists>D. ((\<lambda>d. smoothstep 0.2 0 d) has_real_derivative D) (at d))"
proof -
  have "displacementUpdate_frag uLastFrame uMousePos uMouseVelocity uResolution vUv =
      (let prev = uLastFrame vUv;
           aspect = fst uResolution / snd uResolution;
           d = sqrt (((fst vUv - fst uMousePos) * aspect)\<^sup>2 + (snd vUv - snd uMousePos)\<^sup>2);
           w = smoothstep 0.2 0 d
       in Vec4 (0.95 * chR prev + 2.5 * w * fst uMouseVelocity)
               (0.95 * chG prev + 2.5 * w * snd uMouseVelocity)
               (0.95 * chB prev) (0.95 * chA prev))"
    unfolding displacementUpdate_frag_def Let_def correctedDist
    by (simp add: scale4_def scale2_def texture2D_def mult.commute)
  moreover have "smoothstep 0.2 0 0 = 1"
    by (rule smoothstep_down_at_zero) simp
  moreover have "\<forall>d. 0.2 \<le> d \<longrightarrow> smoothstep 0.2 0 d = 0"
    by (simp add: smoothstep_down_beyond)
  moreover have "\<forall>d d'. d \<le> d' \<longrightarrow> smoothstep 0.2 0 d' \<le> smoothstep 0.2 0 d"
    by (simp add: smoothstep_down_antimono)
  moreover have "\<forall>d. 0 < d \<and> d < 0.2 \<longrightarrow> 0 < smoothstep 0.2 0 d \<and> smoothstep 0.2 0 d < 1"
    using smoothstep_down_inside [of "0.2"] by simp
  moreover have "continuous_on UNIV (\<lambda>d. smoothstep 0.2 0 d)"
    by (rule smoothstep_continuous)
  moreover have "\<forall>d. \<exists>D. ((\<lambda>d. smoothstep 0.2 0 d) has_real_derivative D) (at d)"
    by (intro allI smoothstep_down_differentiable) simp
  ultimately show ?thesis by blast
qed

theorem update_pass_decays_then_adds_brush_witness:
  "(0::real) < snd (800, 600)
   \<and> displacementUpdate_frag (\<lambda>uv. Vec4 1 2 3 4) (1/2, 1/2) (1/10, 0) (800, 600) (1/2, 1/2)
       = Vec4 (12/10) (19/10) (285/100) (38/10)
   \<and> (2/10::real) \<le> 3/10 \<and> smoothstep 0.2 0 (3/10) = 0
   \<and> (1/10::real) \<le> 3/10 \<and> smoothstep 0.2 0 (3/10) \<le> smoothstep 0.2 0 (1/10)
   \<and> (0::real) < 1/10 \<and> (1/10::real) < 2/10
   \<and> 0 < smoothstep 0.2 0 (1/10) \<and> smoothstep 0.2 0 (1/10) < 1"
proof -
  have h: "(0::real) < snd (800, 600)" by simp
  note t = update_pass_decays_then_adds_brush [OF h, of "\<lambda>uv. Vec4 1 2 3 4" "(1/2, 1/2)" "(1/10, 0)" "(1/2, 1/2)"]
  from t have "displacementUpdate_frag (\<lambda>uv. Vec4 1 2 3 4) (1/2, 1/2) (1/10, 0) (800, 600) (1/2, 1/2)
       = Vec4 (12/10) (19/10) (285/100) (38/10)"
    by (simp add: Let_def)
  moreover from t have "(2/10::real) \<le> 3/10 \<longrightarrow> smoothstep 0.2 0 (3/10) = 0"
    by simp
  moreover from t have "(1/10::real) \<le> 3/10 \<longrightarrow> smoothstep 0.2 0 (3/10) \<le> smoothstep 0.2 0 (1/10)"
    by blast
  moreover from t have "(0::real) < 1/10 \<and> (1/10::real) < 0.2
      \<longrightarrow> 0 < smoothstep 0.2 0 (1/10) \<and> smoothstep 0.2 0 (1/10) < 1"
    by blast
  ultimately show ?thesis by simp
qed

text \<open>
  Claim C2. For a viewport of positive height and zero pointer velocity the update pass
  multiplies the value at every point by 0.95, whatever the pointer position. So the magnitude of a non-zero
  value strictly decreases with each frame, in a run of any number of such frames as well,
  the zero value stays zero, and after \<open>n\<close> frames the value is the first one times
  \<open>0.95 ^ n\<close>: for every positive bound there is a number of frames after which the
  magnitude stays below it.
\<close>

theorem decay_only_update_shrinks_field:
  assumes "0 < snd uResolution"
    and "\<forall>(p, v) \<in> set frames. v = (0, 0)"
  shows "displacementUpdate_frag field uMousePos (0, 0) uResolution vUv
           = scale4 (field vUv) 0.95
    \<and> (field vUv \<noteq> Vec4 0 0 0 0 \<longrightarrow>
         length4 (displacementUpdate_frag field uMousePos (0, 0) uResolution vUv)
           < length4 (field vUv))
    \<and> (field vUv = Vec4 0 0 0 0 \<longrightarrow>
         displacementUpdate_frag field uMousePos (0, 0) uResolution vUv = Vec4 0 0 0 0)
    \<and> updatePasses frames uResolution field vUv
         = scale4 (field vUv) (0.95 ^ length frames)
    \<and> (field vUv \<noteq> Vec4 0 0 0 0 \<longrightarrow>
         length4 (updatePasses (frames @ [(uMousePos, (0, 0))]) uResolution field vUv)
           < length4 (updatePasses frames uResolution field vUv))
    \<and> (\<forall>eps>0. \<exists>n. \<forall>fs. (\<forall>(p, v) \<in> set fs. v = (0, 0)) \<and> n \<le> length fs \<longrightarrow>
         length4 (updatePasses fs uResolution field vUv) < eps)"
proof -
  let ?step = "displacementUpdate_frag field uMousePos (0, 0) uResolution vUv"
  have one: "?step = scale4 (field vUv) 0.95"
    by (rule update_zero_velocity)
  have less: "field vUv \<noteq> Vec4 0 0 0 0 \<longrightarrow> length4 ?step < length4 (field vUv)"
    unfolding one using scaled_length4_less [of "field vUv"] by blast
  have fixed: "field vUv = Vec4 0 0 0 0 \<longrightarrow> ?step = Vec4 0 0 0 0"
    by (simp add: one scale4_def)
  have run: "updatePasses frames uResolution field vUv
         = scale4 (field vUv) (0.95 ^ length frames)"
    using assms(2) by (rule updatePasses_zero_velocity)
  have next_less: "field vUv \<noteq> Vec4 0 0 0 0 \<longrightarrow>
         length4 (updatePasses (frames @ [(uMousePos, (0, 0))]) uResolution field vUv)
           < length4 (updatePasses frames uResolution field vUv)"
  proof
    assume nz: "field vUv \<noteq> Vec4 0 0 0 0"
    have "0 < length4 (field vUv)"
      using nz length4_zero_iff [of "field vUv"] length4_nonneg [of "field vUv"] by linarith
    then have "0 < length4 (updatePasses frames uResolution field vUv)"
      by (simp add: run length4_scale4)
    then have "updatePasses frames uResolution field vUv \<noteq> Vec4 0 0 0 0"
      using length4_zero_iff by force
    then have "length4 (scale4 (updatePasses frames uResolution field vUv) 0.95)
           < length4 (updatePasses frames uResolution field vUv)"
      by (rule scaled_length4_less)
    then show "length4 (updatePasses (frames @ [(uMousePos, (0, 0))]) uResolution field vUv)
           < length4 (updatePasses frames uResolution field vUv)"
      by (simp only: updatePasses_snoc update_zero_velocity)
  qed
  have lim: "\<forall>eps>0. \<exists>n. \<forall>fs. (\<forall>(p, v) \<in> set fs. v = (0, 0)) \<and> n \<le> length fs \<longrightarrow>
         length4 (updatePasses fs uResolution field vUv) < eps"
  proof (intro allI impI)
    fix eps :: real assume "0 < eps"
    then obtain n where n: "\<forall>m\<ge>n. (0.95::real) ^ m * length4 (field vUv) < eps"
      using vanishing by blast
    have "\<forall>fs. (\<forall>(p, v) \<in> set fs. v = (0, 0)) \<and> n \<le> length fs \<longrightarrow>
         length4 (updatePasses fs uResolution field vUv) < eps"
    proof (intro allI impI)
      fix fs :: "(vec2 \<times> vec2) list"
      assume fs: "(\<forall>(p, v) \<in> set fs. v = (0, 0)) \<and> n \<le> length fs"
      then have "updatePasses fs uResolution field vUv = scale4 (field vUv) (0.95 ^ length fs)"
        by (simp add: updatePasses_zero_velocity)
      then show "length4 (updatePasses fs uResolution field vUv) < eps"
        using n fs by (simp add: length4_scale4)
    qed
    then show "\<exists>n. \<forall>fs. (\<forall>(p, v) \<in> set fs. v = (0, 0)) \<and> n \<le> length fs \<longrightarrow>
         length4 (updatePasses fs uResolution field vUv) < eps" ..
  qed
  from one less fixed run next_less lim show ?thesis by blast
qed


theorem decay_only_update_shrinks_field_witness:
  "(0::real) < snd ((800, 600)::vec2)
   \<and> Vec4 1 0 0 0 \<noteq> Vec4 0 0 0 0
   \<and> length4 (displacementUpdate_frag (\<lambda>uv. Vec4 1 0 0 0) (1/2, 1/2) (0, 0) (800, 600) (1/4, 1/4))
        < length4 (Vec4 1 0 0 0)
   \<and> displacementUpdate_frag (\<lambda>uv. Vec4 0 0 0 0) (1/2, 1/2) (0, 0) (800, 600) (1/4, 1/4)
        = Vec4 0 0 0 0
   \<and> updatePasses [((1/2, 1/2), (0, 0)), ((1/3, 1/2), (0, 0))] (800, 600) (\<lambda>uv. Vec4 1 0 0 0) (1/4, 1/4)
        = Vec4 (361/400) 0 0 0"
proof -
  have h: "(0::real) < snd ((800, 600)::vec2)" by simp
  have z: "\<forall>(p, v) \<in> set [((1/2, 1/2), (0, 0)), ((1/3, 1/2), (0::real, 0::real))]. v = (0, 0)"
    by simp
  note a = decay_only_update_shrinks_field [OF h z, where field = "\<lambda>uv. Vec4 1 0 0 0"
      and vUv = "(1/4, 1/4)" and uMousePos = "(1/2, 1/2)"]
  note b = decay_only_update_shrinks_field [OF h z, where field = "\<lambda>uv. Vec4 0 0 0 0"
      and vUv = "(1/4, 1/4)" and uMousePos = "(1/2, 1/2)"]
  from a [THEN conjunct2, THEN conjunct1]
  have "length4 (displacementUpdate_frag (\<lambda>uv. Vec4 1 0 0 0) (1/2, 1/2) (0, 0) (800, 600) (1/4, 1/4))
        < length4 (Vec4 1 0 0 0)"
    by simp
  moreover from b [THEN conjunct2, THEN conjunct2, THEN conjunct1]
  have "displacementUpdate_frag (\<lambda>uv. Vec4 0 0 0 0) (1/2, 1/2) (0, 0) (800, 600) (1/4, 1/4)
        = Vec4 0 0 0 0"
    by simp
  moreover from a [THEN conjunct2, THEN conjunct2, THEN conjunct2, THEN conjunct1]
  have "updatePasses [((1/2, 1/2), (0, 0)), ((1/3, 1/2), (0, 0))] (800, 600) (\<lambda>uv. Vec4 1 0 0 0) (1/4, 1/4)
        = Vec4 (361/400) 0 0 0"
    by (simp add: scale4_def power2_eq_square)
  ultimately show ?thesis by simp
qed

text \<open>
  Claim C3, as stated, at the velocity (0, 0): on a zero field the pass with the pointer on
  the fragment and the pass with the pointer at distance 0.4 from it both return a zero
  displacement, so the first contribution is not strictly larger than the second.
\<close>

theorem brush_zero_velocity_counterexample:
  "\<not> length2 (sub2 (let out = displacementUpdate_frag (\<lambda>uv. Vec4 0 0 0 0) (1/2, 1/2) (0, 0) (800, 600) (1/2, 1/2)
                      in (chR out, chG out)) (0, 0))
     > length2 (sub2 (let out = displacementUpdate_frag (\<lambda>uv. Vec4 0 0 0 0) (9/10, 1/2) (0, 0) (800, 600) (1/2, 1/2)
                      in (chR out, chG out)) (0, 0))"
  by (simp add: update_zero_velocity scale4_def sub2_def)

text \<open>
  Claim C3, amended. With the pointer at corrected distance 0 from the fragment the pass adds
  the velocity times 2.5 to the decayed displacement; with the pointer at corrected distance
  0.2 or more it adds nothing, and the result is the decayed value. The first contribution
  is strictly larger in magnitude when the velocity is not zero, and both are zero when it
  is.
\<close>

theorem brush_at_pointer_exceeds_outside_radius:
  assumes "0 < snd uResolution"
    and "distance2 (fst vUv * (fst uResolution / snd uResolution), snd vUv)
           (fst nearMouse * (fst uResolution / snd uResolution), snd nearMouse) = 0"
    and "0.2 \<le> distance2 (fst vUv * (fst uResolution / snd uResolution), snd vUv)
           (fst farMouse * (fst uResolution / snd uResolution), snd farMouse)"
  shows "(let decayed = scale4 (uLastFrame vUv) 0.95;
              near = displacementUpdate_frag uLastFrame nearMouse V uResolution vUv;
              far = displacementUpdate_frag uLastFrame farMouse V uResolution vUv;
              addedNear = sub2 (chR near, chG near) (chR decayed, chG decayed);
              addedFar = sub2 (chR far, chG far) (chR decayed, chG decayed)
          in far = decayed
           \<and> addedFar = (0, 0)
           \<and> addedNear = scale2 V 2.5
           \<and> length2 addedNear = 2.5 * length2 V
           \<and> (V \<noteq> (0, 0) \<longrightarrow> length2 addedFar < length2 addedNear)
           \<and> (V = (0, 0) \<longrightarrow> length2 addedNear = length2 addedFar))"
proof -
  note t = brush_near_far [OF assms(1) refl refl assms(2) assms(3) refl refl, of uLastFrame V]
  have "displacementUpdate_frag uLastFrame farMouse V uResolution vUv = scale4 (uLastFrame vUv) 0.95"
    using t by blast
  then show ?thesis
    unfolding Let_def using t
    by (auto simp: sub2_def length2_def scale2_def)
qed

theorem brush_at_pointer_exceeds_outside_radius_witness:
  "(0::real) < snd ((800, 600)::vec2)
   \<and> distance2 (fst ((1/2, 1/2)::vec2) * (fst ((800, 600)::vec2) / snd ((800, 600)::vec2)), snd ((1/2, 1/2)::vec2))
        (fst ((1/2, 1/2)::vec2) * (fst ((800, 600)::vec2) / snd ((800, 600)::vec2)), snd ((1/2, 1/2)::vec2)) = 0
   \<and> 0.2 \<le> distance2 (fst ((1/2, 1/2)::vec2) * (fst ((800, 600)::vec2) / snd ((800, 600)::vec2)), snd ((1/2, 1/2)::vec2))
        (fst ((1/2, 3/2)::vec2) * (fst ((800, 600)::vec2) / snd ((800, 600)::vec2)), snd ((1/2, 3/2)::vec2))
   \<and> ((1, 0)::vec2) \<noteq> (0, 0)
   \<and> displacementUpdate_frag (\<lambda>uv. Vec4 1 1 0 0) (1/2, 3/2) (1, 0) (800, 600) (1/2, 1/2)
        = Vec4 (19/20) (19/20) 0 0
   \<and> length2 (sub2 (chR (displacementUpdate_frag (\<lambda>uv. Vec4 1 1 0 0) (1/2, 3/2) (1, 0) (800, 600) (1/2, 1/2)),
                      chG (displacementUpdate_frag (\<lambda>uv. Vec4 1 1 0 0) (1/2, 3/2) (1, 0) (800, 600) (1/2, 1/2)))
                     (19/20, 19/20))
       < length2 (sub2 (chR (displacementUpdate_frag (\<lambda>uv. Vec4 1 1 0 0) (1/2, 1/2) (1, 0) (800, 600) (1/2, 1/2)),
                      chG (displacementUpdate_frag (\<lambda>uv. Vec4 1 1 0 0) (1/2, 1/2) (1, 0) (800, 600) (1/2, 1/2)))
                     (19/20, 19/20))"
proof -
  have h: "(0::real) < snd ((800, 600)::vec2)" by simp
  have n: "distance2 (fst ((1/2, 1/2)::vec2) * (fst ((800, 600)::vec2) / snd ((800, 600)::vec2)), snd ((1/2, 1/2)::vec2))
        (fst ((1/2, 1/2)::vec2) * (fst ((800, 600)::vec2) / snd ((800, 600)::vec2)), snd ((1/2, 1/2)::vec2)) = 0"
    by (simp add: distance2_def length2_def sub2_def)
  have f: "0.2 \<le> distance2 (fst ((1/2, 1/2)::vec2) * (fst ((800, 600)::vec2) / snd ((800, 600)::vec2)), snd ((1/2, 1/2)::vec2))
        (fst ((1/2, 3/2)::vec2) * (fst ((800, 600)::vec2) / snd ((800, 600)::vec2)), snd ((1/2, 3/2)::vec2))"
    by (simp add: distance2_def length2_def sub2_def)
  have v: "((1, 0)::vec2) \<noteq> (0, 0)" by simp
  note t = brush_at_pointer_exceeds_outside_radius [OF h n f, of "\<lambda>uv. Vec4 1 1 0 0" "(1, 0)", unfolded Let_def]
  from t [THEN conjunct1]
  have "displacementUpdate_frag (\<lambda>uv. Vec4 1 1 0 0) (1/2, 3/2) (1, 0) (800, 600) (1/2, 1/2)
        = Vec4 (19/20) (19/20) 0 0"
    by (simp add: scale4_def)
  moreover from t [THEN conjunct2, THEN conjunct2, THEN conjunct2, THEN conjunct2, THEN conjunct1] v
  have "length2 (sub2 (chR (displacementUpdate_frag (\<lambda>uv. Vec4 1 1 0 0) (1/2, 3/2) (1, 0) (800, 600) (1/2, 1/2)),
                      chG (displacementUpdate_frag (\<lambda>uv. Vec4 1 1 0 0) (1/2, 3/2) (1, 0) (800, 600) (1/2, 1/2)))
                     (19/20, 19/20))
       < length2 (sub2 (chR (displacementUpdate_frag (\<lambda>uv. Vec4 1 1 0 0) (1/2, 1/2) (1, 0) (800, 600) (1/2, 1/2)),
                      chG (displacementUpdate_frag (\<lambda>uv. Vec4 1 1 0 0) (1/2, 1/2) (1, 0) (800, 600) (1/2, 1/2)))
                     (19/20, 19/20))"
    by (simp add: scale4_def)
  ultimately show ?thesis using h n f v by blast
qed

text \<open>
  Claim C4. With \<open>(dx, dy)\<close> the r and g channels of the displacement field at the
  fragment, the composite pass samples the top image at
  \<open>(x + 0.1 dx, y + 0.1 dy)\<close> and the bottom image at \<open>(x + 0.05 dx, y + 0.05 dy)\<close>, so
  the top offset is twice the bottom offset on both axes. It multiplies the r, g and b
  channels of the bottom sample by 0.2, replaces the alpha of the top sample by the opacity,
  which is \<open>smoothstep\<close> of the length of \<open>(dx, dy)\<close> and lies between 0 and 1, and
  returns on every channel bottom times (1 - opacity) plus top times opacity.
\<close>

theorem composite_pass_parallax_blend:
  "finalRender_frag uDisplacementMap uTopTexture uBottomTexture vUv =
     (let dx = chR (uDisplacementMap vUv);
          dy = chG (uDisplacementMap vUv);
          topSample = uTopTexture (fst vUv + dx * 0.1, snd vUv + dy * 0.1);
          bottomSample = uBottomTexture (fst vUv + dx * 0.05, snd vUv + dy * 0.05);
          opacity = smoothstep 0.1 0 (sqrt (dx * dx + dy * dy))
      in Vec4 (0.2 * chR bottomSample * (1 - opacity) + chR topSample * opacity)
              (0.2 * chG bottomSample * (1 - opacity) + chG topSample * opacity)
              (0.2 * chB bottomSample * (1 - opacity) + chB topSample * opacity)
              (chA bottomSample * (1 - opacity) + opacity * opacity))
   \<and> (let dx = chR (uDisplacementMap vUv);
          dy = chG (uDisplacementMap vUv);
          topUV = add2 vUv (scale2 (dx, dy) 0.1);
          bottomUV = add2 vUv (scale2 (dx, dy) 0.05)
      in topUV = (fst vUv + dx * 0.1, snd vUv + dy * 0.1)
       \<and> bottomUV = (fst vUv + dx * 0.05, snd vUv + dy * 0.05)
       \<and> sub2 topUV vUv = scale2 (sub2 bottomUV vUv) 2
       \<and> 0 \<le> smoothstep 0.1 0 (sqrt (dx * dx + dy * dy))
       \<and> smoothstep 0.1 0 (sqrt (dx * dx + dy * dy)) \<le> 1)"
proof -
  have "finalRender_frag uDisplacementMap uTopTexture uBottomTexture vUv =
     (let dx = chR (uDisplacementMap vUv);
          dy = chG (uDisplacementMap vUv);
          topSample = uTopTexture (fst vUv + dx * 0.1, snd vUv + dy * 0.1);
          bottomSample = uBottomTexture (fst vUv + dx * 0.05, snd vUv + dy * 0.05);
          opacity = smoothstep 0.1 0 (sqrt (dx * dx + dy * dy))
      in Vec4 (0.2 * chR bottomSample * (1 - opacity) + chR topSample * opacity)
              (0.2 * chG bottomSample * (1 - opacity) + chG topSample * opacity)
              (0.2 * chB bottomSample * (1 - opacity) + chB topSample * opacity)
              (chA bottomSample * (1 - opacity) + opacity * opacity))"
    by (simp add: finalRender_frag_def Let_def texture2D_def mix4_def mix_def add2_def
        scale2_def length2_def)
  moreover have "0 \<le> smoothstep 0.1 0 (sqrt (chR (uDisplacementMap vUv) * chR (uDisplacementMap vUv)
        + chG (uDisplacementMap vUv) * chG (uDisplacementMap vUv)))
      \<and> smoothstep 0.1 0 (sqrt (chR (uDisplacementMap vUv) * chR (uDisplacementMap vUv)
        + chG (uDisplacementMap vUv) * chG (uDisplacementMap vUv))) \<le> 1"
    by (rule smoothstep_range)
  ultimately show ?thesis
    by (simp add: Let_def add2_def sub2_def scale2_def)
qed

theorem composite_pass_parallax_blend_witness:
  "finalRender_frag (\<lambda>uv. Vec4 (1/20) 0 0 0) (\<lambda>uv. Vec4 (fst uv) (snd uv) 0 1)
     (\<lambda>uv. Vec4 (fst uv) (snd uv) 1 1) (1/2, 1/2)
   = Vec4 (1211/4000) (3/10) (1/10) (3/4)
   \<and> add2 (1/2, 1/2) (scale2 (1/20, 0) 0.1) = (101/200, 1/2)
   \<and> add2 (1/2, 1/2) (scale2 (1/20, 0) 0.05) = (201/400, 1/2)"
proof -
  have rt: "sqrt (1/400) = (1/20::real)"
    by (rule real_sqrt_unique) (simp_all add: power2_eq_square)
  have half: "smoothstep (1/10) 0 (sqrt (1/400)) = 1/2"
    unfolding rt by (simp add: smoothstep_def clamp_def Let_def)
  note t = composite_pass_parallax_blend [of "\<lambda>uv. Vec4 (1/20) 0 0 0"
      "\<lambda>uv. Vec4 (fst uv) (snd uv) 0 1" "\<lambda>uv. Vec4 (fst uv) (snd uv) 1 1" "(1/2, 1/2)",
      unfolded Let_def]
  from t [THEN conjunct1]
  have "finalRender_frag (\<lambda>uv. Vec4 (1/20) 0 0 0) (\<lambda>uv. Vec4 (fst uv) (snd uv) 0 1)
     (\<lambda>uv. Vec4 (fst uv) (snd uv) 1 1) (1/2, 1/2)
   = Vec4 (1211/4000) (3/10) (1/10) (3/4)"
    by (simp add: half)
  moreover from t [THEN conjunct2, THEN conjunct1]
  have "add2 (1/2, 1/2) (scale2 (1/20, 0) 0.1) = (101/200, 1/2)"
    by simp
  moreover from t [THEN conjunct2, THEN conjunct2, THEN conjunct1]
  have "add2 (1/2, 1/2) (scale2 (1/20, 0) 0.05) = (201/400, 1/2)"
    by simp
  ultimately show ?thesis by blast
qed

text \<open>
  Claim C5. Where the displacement is zero the composite pass returns the r, g and b channels
  of the top image at the unchanged coordinate with alpha 1, whatever the bottom image
  is.
\<close>

theorem composite_pass_zero_displacement:
  assumes "chR (uDisplacementMap vUv) = 0" and "chG (uDisplacementMap vUv) = 0"
  shows "finalRender_frag uDisplacementMap uTopTexture uBottomTexture vUv
         = Vec4 (chR (uTopTexture vUv)) (chG (uTopTexture vUv)) (chB (uTopTexture vUv)) 1"
  using assms
  by (simp add: finalRender_frag_def Let_def texture2D_def mix4_def mix_def scale2_def add2_def
      length2_def smoothstep_def clamp_def)

theorem composite_pass_zero_displacement_witness:
  "chR ((\<lambda>uv. Vec4 0 0 0 0) (1/3::real, 1/4::real)) = 0
   \<and> chG ((\<lambda>uv. Vec4 0 0 0 0) (1/3::real, 1/4::real)) = 0
   \<and> finalRender_frag (\<lambda>uv. Vec4 0 0 0 0) (\<lambda>uv. Vec4 (fst uv) (snd uv) (1/2) (1/2))
        (\<lambda>uv. Vec4 1 1 1 1) (1/3, 1/4) = Vec4 (1/3) (1/4) (1/2) 1"
  using composite_pass_zero_displacement [of "\<lambda>uv. Vec4 0 0 0 0" "(1/3, 1/4)" "\<lambda>uv. Vec4 (fst uv) (snd uv) (1/2) (1/2)"
      "\<lambda>uv. Vec4 1 1 1 1"]
  by simp




text \<open>
  Claim C7. One swap exchanges the two roles and leaves the contents of both targets as they
  are; two swaps give each target its first role again. When the two variables refer to two
  distinct targets before a swap they do so after it, and from a state in which the
  uniforms agree with the variables, as after \<open>init\<close>, two swaps give the same state
  again.
\<close>

theorem swap_is_involution_on_roles:
  "currentRenderTarget (swapRenderTargets (swapRenderTargets s)) = currentRenderTarget s
   \<and> previousRenderTarget (swapRenderTargets (swapRenderTargets s)) = previousRenderTarget s
   \<and> currentRenderTarget (swapRenderTargets s) = previousRenderTarget s
   \<and> previousRenderTarget (swapRenderTargets s) = currentRenderTarget s
   \<and> contents (swapRenderTargets s) = contents s
   \<and> (currentRenderTarget s \<noteq> previousRenderTarget s \<longrightarrow>
        currentRenderTarget (swapRenderTargets s) \<noteq> previousRenderTarget (swapRenderTargets s))
   \<and> (pingpong s \<longrightarrow>
        pingpong (swapRenderTargets s) \<and> swapRenderTargets (swapRenderTargets s) = s)"
  by (auto simp: swap_fields swap_pingpong swap_swap)

theorem swap_is_involution_on_roles_witness:
  "currentRenderTarget (init (800, 600) (\<lambda>uv. Vec4 1 1 1 1) (\<lambda>uv. Vec4 0 0 0 1) (\<lambda>uv. Vec4 0 0 0 0)) \<noteq> previousRenderTarget (init (800, 600) (\<lambda>uv. Vec4 1 1 1 1) (\<lambda>uv. Vec4 0 0 0 1) (\<lambda>uv. Vec4 0 0 0 0))
   \<and> pingpong (init (800, 600) (\<lambda>uv. Vec4 1 1 1 1) (\<lambda>uv. Vec4 0 0 0 1) (\<lambda>uv. Vec4 0 0 0 0))
   \<and> currentRenderTarget (swapRenderTargets (init (800, 600) (\<lambda>uv. Vec4 1 1 1 1) (\<lambda>uv. Vec4 0 0 0 1) (\<lambda>uv. Vec4 0 0 0 0))) = 1
   \<and> previousRenderTarget (swapRenderTargets (init (800, 600) (\<lambda>uv. Vec4 1 1 1 1) (\<lambda>uv. Vec4 0 0 0 1) (\<lambda>uv. Vec4 0 0 0 0))) = 0
   \<and> swapRenderTargets (swapRenderTargets (init (800, 600) (\<lambda>uv. Vec4 1 1 1 1) (\<lambda>uv. Vec4 0 0 0 1) (\<lambda>uv. Vec4 0 0 0 0))) = init (800, 600) (\<lambda>uv. Vec4 1 1 1 1) (\<lambda>uv. Vec4 0 0 0 1) (\<lambda>uv. Vec4 0 0 0 0)"
  using swap_is_involution_on_roles [of "init (800, 600) (\<lambda>uv. Vec4 1 1 1 1) (\<lambda>uv. Vec4 0 0 0 1) (\<lambda>uv. Vec4 0 0 0 0)"]
  by (simp add: init_def pingpong_def)




section \<open>The claims about the content server\<close>

text \<open>
  Claim C9, at a request to the root path for which the template has written
  \<^verbatim>\<open><html>\<close> when its execution fails with \<^verbatim>\<open>boom\<close>. The handler calls
  \<^verbatim>\<open>http.Error\<close> with \<^verbatim>\<open>StatusInternalServerError\<close>, but the first write has sent
  status 200 and the \<^verbatim>\<open>WriteHeader(500)\<close> comes too late: the response keeps status
  200, and its body is the partial page followed by the error text.
\<close>

theorem home_failure_after_output_keeps_status_200:
  "status (snd (serveHTTP
       \<lparr> ExecuteTemplate = (\<lambda>t name data. ([''<html>''], Some ''boom'')),
         ServeFile = (\<lambda>path name w. w), FileServer = (\<lambda>root path w. w),
         RedirectHandler = (\<lambda>url w. w) \<rparr>
       ''/'' \<lparr> items = [], tmpl = () \<rparr>)) = StatusOK
   \<and> body (snd (serveHTTP
       \<lparr> ExecuteTemplate = (\<lambda>t name data. ([''<html>''], Some ''boom'')),
         ServeFile = (\<lambda>path name w. w), FileServer = (\<lambda>root path w. w),
         RedirectHandler = (\<lambda>url w. w) \<rparr>
       ''/'' \<lparr> items = [], tmpl = () \<rparr>)) = ''<html>boom'' @ [CHR 0x0A]
   \<and> StatusOK \<noteq> StatusInternalServerError"
  by (simp add: serveHTTP_root homeHandler_response StatusOK_def StatusInternalServerError_def)

text \<open>
  What holds of claim C9. A failure to get the working directory, to open the catalog file,
  to decode it or to parse the templates makes \<open>main_startup\<close> exit with the matching
  fatal error, and a process that serves has loaded the whole catalog and the templates. A
  request to the root path returns the process as it was, with the same catalog, whatever
  the template does; when the execution of the template fails before it has written
  anything, the response has status 500 and the error text as its body.
\<close>

theorem startup_failures_exit_request_failures_do_not:
  "(\<forall>e. Getwd env = Inl e \<longrightarrow> main_startup env = Exited (FailedGetwd e))
   \<and> (\<forall>dir e. Getwd env = Inr dir
         \<and> Open env (Join env [dir, ''static'', ''data'', ''items.json'']) = Inl e \<longrightarrow>
         main_startup env
           = Exited (FailedOpen (Join env [dir, ''static'', ''data'', ''items.json'']) e))
   \<and> (\<forall>dir f e. Getwd env = Inr dir
         \<and> Open env (Join env [dir, ''static'', ''data'', ''items.json'']) = Inr f
         \<and> Decode env f = Inl e \<longrightarrow>
         main_startup env = Exited (FailedDecode e))
   \<and> (\<forall>loaded e. loadItems env = Inr loaded
         \<and> ParseFiles env [''templates/header.html'', ''templates/footer.html'',
                            ''templates/home.html''] = Inl e \<longrightarrow>
         main_startup env = Exited (FailedParseTemplates e))
   \<and> (\<forall>srv. main_startup env = Serving srv \<longrightarrow>
         loadItems env = Inr (items srv)
         \<and> ParseFiles env [''templates/header.html'', ''templates/footer.html'',
                            ''templates/home.html''] = Inr (tmpl srv))
   \<and> fst (serveHTTP renv ''/'' srv) = Serving srv
   \<and> (\<forall>e. ExecuteTemplate renv (tmpl srv) ''home.html''
             (Some [''Title'' \<mapsto> TString ''BlendingWaves'', ''Items'' \<mapsto> TItems (items srv)])
           = ([], Some e) \<longrightarrow>
         status (snd (serveHTTP renv ''/'' srv)) = StatusInternalServerError
         \<and> body (snd (serveHTTP renv ''/'' srv)) = e @ [CHR 0x0A])"
proof -
  have a: "\<forall>e. Getwd env = Inl e \<longrightarrow> main_startup env = Exited (FailedGetwd e)"
    by (simp add: main_startup_def loadItems_def)
  have b: "\<forall>dir e. Getwd env = Inr dir
         \<and> Open env (Join env [dir, ''static'', ''data'', ''items.json'']) = Inl e \<longrightarrow>
         main_startup env
           = Exited (FailedOpen (Join env [dir, ''static'', ''data'', ''items.json'']) e)"
    by (simp add: main_startup_def loadItems_def Let_def)
  have c: "\<forall>dir f e. Getwd env = Inr dir
         \<and> Open env (Join env [dir, ''static'', ''data'', ''items.json'']) = Inr f
         \<and> Decode env f = Inl e \<longrightarrow>
         main_startup env = Exited (FailedDecode e)"
    by (simp add: main_startup_def loadItems_def Let_def)
  have d: "\<forall>loaded e. loadItems env = Inr loaded
         \<and> ParseFiles env [''templates/header.html'', ''templates/footer.html'',
                            ''templates/home.html''] = Inl e \<longrightarrow>
         main_startup env = Exited (FailedParseTemplates e)"
    by (simp add: main_startup_def)
  have e: "\<forall>srv. main_startup env = Serving srv \<longrightarrow>
         loadItems env = Inr (items srv)
         \<and> ParseFiles env [''templates/header.html'', ''templates/footer.html'',
                            ''templates/home.html''] = Inr (tmpl srv)"
    by (auto simp: main_startup_def split: sum.splits)
  have f: "fst (serveHTTP renv ''/'' srv) = Serving srv"
    by (simp add: serveHTTP_def)
  have g: "\<forall>e. ExecuteTemplate renv (tmpl srv) ''home.html''
             (Some [''Title'' \<mapsto> TString ''BlendingWaves'', ''Items'' \<mapsto> TItems (items srv)])
           = ([], Some e) \<longrightarrow>
         status (snd (serveHTTP renv ''/'' srv)) = StatusInternalServerError
         \<and> body (snd (serveHTTP renv ''/'' srv)) = e @ [CHR 0x0A]"
    by (simp add: serveHTTP_root homeHandler_response)
  from a b c d e f g show ?thesis by blast
qed


theorem startup_failures_exit_request_failures_do_not_witness:
  "(let env = \<lparr> Getwd = Inl ''no cwd'', Join = concat, Open = (\<lambda>p. Inr ''[]''),
                 Decode = (\<lambda>f::string. Inr []), ParseFiles = (\<lambda>fs. Inr ()),
                 Listen = (\<lambda>n a. Inr ()) \<rparr>
    in Getwd env = Inl ''no cwd'' \<and> main_startup env = Exited (FailedGetwd ''no cwd''))
   \<and> (let env = \<lparr> Getwd = Inr ''/srv'', Join = concat, Open = (\<lambda>p. Inl ''no such file''),
                 Decode = (\<lambda>f::string. Inr []), ParseFiles = (\<lambda>fs. Inr ()),
                 Listen = (\<lambda>n a. Inr ()) \<rparr>
    in Open env (Join env [''/srv'', ''static'', ''data'', ''items.json'']) = Inl ''no such file''
       \<and> main_startup env = Exited (FailedOpen ''/srvstaticdataitems.json'' ''no such file''))
   \<and> (let env = \<lparr> Getwd = Inr ''/srv'', Join = concat, Open = (\<lambda>p. Inr ''[''),
                 Decode = (\<lambda>f::string. Inl ''unexpected EOF''), ParseFiles = (\<lambda>fs. Inr ()),
                 Listen = (\<lambda>n a. Inr ()) \<rparr>
    in Decode env ''['' = Inl ''unexpected EOF''
       \<and> main_startup env = Exited (FailedDecode ''unexpected EOF''))
   \<and> (let env = \<lparr> Getwd = Inr ''/srv'', Join = concat, Open = (\<lambda>p. Inr ''[]''),
                 Decode = (\<lambda>f::string. Inr []), ParseFiles = (\<lambda>fs. Inl ''no such template'' :: string + unit),
                 Listen = (\<lambda>n a. Inr ()) \<rparr>
    in loadItems env = Inr []
       \<and> main_startup env = Exited (FailedParseTemplates ''no such template''))
   \<and> (let renv = \<lparr> ExecuteTemplate = (\<lambda>t name data. ([], Some ''boom'')),
                  ServeFile = (\<lambda>path name w. w), FileServer = (\<lambda>root path w. w),
         RedirectHandler = (\<lambda>url w. w) \<rparr>;
           srv = \<lparr> items = [], tmpl = () \<rparr>
       in fst (serveHTTP renv ''/'' srv) = Serving srv
          \<and> status (snd (serveHTTP renv ''/'' srv)) = StatusInternalServerError
          \<and> body (snd (serveHTTP renv ''/'' srv)) = ''boom'' @ [CHR 0x0A])"
proof -
  let ?ok = "\<lparr> ExecuteTemplate = (\<lambda>t name data. ([], Some ''boom'')),
                  ServeFile = (\<lambda>path name w. w), FileServer = (\<lambda>root path w. w),
         RedirectHandler = (\<lambda>url w. w) \<rparr>"
  let ?srv = "\<lparr> items = [], tmpl = () \<rparr>"
  let ?e1 = "\<lparr> Getwd = Inl ''no cwd'', Join = concat, Open = (\<lambda>p. Inr ''[]''),
                 Decode = (\<lambda>f::string. Inr []), ParseFiles = (\<lambda>fs. Inr ()),
                 Listen = (\<lambda>n a. Inr ()) \<rparr>"
  let ?e2 = "\<lparr> Getwd = Inr ''/srv'', Join = concat, Open = (\<lambda>p. Inl ''no such file''),
                 Decode = (\<lambda>f::string. Inr []), ParseFiles = (\<lambda>fs. Inr ()),
                 Listen = (\<lambda>n a. Inr ()) \<rparr>"
  let ?e3 = "\<lparr> Getwd = Inr ''/srv'', Join = concat, Open = (\<lambda>p. Inr ''[''),
                 Decode = (\<lambda>f::string. Inl ''unexpected EOF''), ParseFiles = (\<lambda>fs. Inr ()),
                 Listen = (\<lambda>n a. Inr ()) \<rparr>"
  let ?e4 = "\<lparr> Getwd = Inr ''/srv'', Join = concat, Open = (\<lambda>p. Inr ''[]''),
                 Decode = (\<lambda>f::string. Inr []), ParseFiles = (\<lambda>fs. Inl ''no such template'' :: string + unit),
                 Listen = (\<lambda>n a. Inr ()) \<rparr>"
  have l4: "loadItems ?e4 = Inr []"
    by (simp add: loadItems_def)
  have "main_startup ?e1 = Exited (FailedGetwd ''no cwd'')"
    using startup_failures_exit_request_failures_do_not
      [where env = ?e1 and renv = ?ok and srv = ?srv]
    by simp
  moreover have "main_startup ?e2 = Exited (FailedOpen ''/srvstaticdataitems.json'' ''no such file'')"
    using startup_failures_exit_request_failures_do_not
      [where env = ?e2 and renv = ?ok and srv = ?srv]
    by simp
  moreover have "main_startup ?e3 = Exited (FailedDecode ''unexpected EOF'')"
    using startup_failures_exit_request_failures_do_not
      [where env = ?e3 and renv = ?ok and srv = ?srv]
    by simp
  moreover have "main_startup ?e4 = Exited (FailedParseTemplates ''no such template'')"
    using startup_failures_exit_request_failures_do_not
      [where env = ?e4 and renv = ?ok and srv = ?srv]
    by (simp add: l4)
  moreover have "fst (serveHTTP ?ok ''/'' ?srv) = Serving ?srv
      \<and> status (snd (serveHTTP ?ok ''/'' ?srv)) = StatusInternalServerError
      \<and> body (snd (serveHTTP ?ok ''/'' ?srv)) = ''boom'' @ [CHR 0x0A]"
    using startup_failures_exit_request_failures_do_not
      [where env = ?e1 and renv = ?ok and srv = ?srv]
    by simp
  ultimately show ?thesis using l4 by (simp add: Let_def)
qed




end
